theory Spec2Isabelle
  imports Main "HOL-Library.AList"
begin

section \<open>Python values used by \<open>parkrun_analyser.py\<close>\<close>

text \<open>
  The program is one Python module, \<open>src/parkrun_analyser.py\<close>. Its functions are
  embedded below under their own names; a leading underscore of a private function is
  dropped, since an Isabelle name cannot begin with one. Exceptions are values: every
  function that can raise returns \<open>error + 'a\<close>, with \<open>Inl\<close> the exception raised.
  The \<open>print\<close> calls only report progress and are left out.

  The module calls three libraries whose code is not part of the repository:
  \<open>requests\<close> (the HTTP session), \<open>pandas\<close> (\<open>read_html\<close>, \<open>to_datetime\<close>,
  \<open>to_timedelta\<close>) and \<open>plotly\<close> (the figure). The network and the HTML table
  parser are parameters of the model (\<open>session_get\<close>, \<open>read_html\<close>); the small
  library functions the claims depend on are modelled where they are used, each under
  a comment that says where the model comes from.
\<close>

text \<open>
  The exceptions: \<open>RuntimeError\<close> with its message is what the module itself raises;
  \<open>HTTPError\<close> with the status code of its response and \<open>RequestException\<close> are
  those of \<open>requests\<close>; \<open>ValueError\<close>, \<open>KeyError\<close>, \<open>TypeError\<close> and
  \<open>AttributeError\<close> are raised by the libraries and by Python's operators;
  \<open>OutOfBoundsTimedelta\<close> and \<open>OutOfBoundsDatetime\<close> are those of \<open>pandas\<close> for a
  value outside its 64-bit count of nanoseconds.
\<close>

datatype error =
    RuntimeError string
  | HTTPError int
  | RequestException string
  | ValueError
  | KeyError string
  | TypeError
  | AttributeError
  | OutOfBoundsTimedelta
  | OutOfBoundsDatetime

subsection \<open>Decimal numerals: \<open>str(n)\<close>, \<open>int(s)\<close> and the format \<open>02d\<close>\<close>

definition digit_char :: "nat \<Rightarrow> char" where
  "digit_char d = ''0123456789'' ! (d mod 10)"

fun str_nat :: "nat \<Rightarrow> string" where
  "str_nat n = (if n < 10 then [digit_char n] else str_nat (n div 10) @ [digit_char (n mod 10)])"

declare str_nat.simps [simp del]

text \<open>\<open>str(i)\<close> of a Python int, as the f-string of line 21 prints the status code.\<close>

definition str_int :: "int \<Rightarrow> string" where
  "str_int i = (if i < 0 then CHR ''-'' # str_nat (nat (- i)) else str_nat (nat i))"

text \<open>
  The format specification \<open>02d\<close> of line 37: decimal, minimum width 2, filled with
  zeros after the sign. A negative number has its sign as the first of the two columns.
\<close>

definition zfill :: "nat \<Rightarrow> string \<Rightarrow> string" where
  "zfill width s = replicate (width - length s) (CHR ''0'') @ s"

definition format_02d :: "int \<Rightarrow> string" where
  "format_02d v =
     (if v < 0 then CHR ''-'' # zfill (2 - 1) (str_nat (nat (- v))) else zfill 2 (str_nat (nat v)))"

text \<open>The decimal digits are the characters with the codes 48 to 57.\<close>

definition is_digit :: "char \<Rightarrow> bool" where
  "is_digit c = (48 \<le> (of_char c :: nat) \<and> (of_char c :: nat) \<le> 57)"

definition is_digits :: "string \<Rightarrow> bool" where
  "is_digits s = (s \<noteq> [] \<and> list_all is_digit s)"

definition digit_val :: "char \<Rightarrow> nat" where
  "digit_val c = of_char c - 48"

text \<open>The value of a string of decimal digits, leading zeros allowed (\<open>int("05") = 5\<close>).\<close>

definition dec_val :: "string \<Rightarrow> nat" where
  "dec_val s = foldl (\<lambda>a c. 10 * a + digit_val c) 0 s"

text \<open>\<open>s.split(sep)\<close> for a separator of one character: the fields between the separators.\<close>

fun split_on :: "char \<Rightarrow> string \<Rightarrow> string list" where
  "split_on sep [] = [[]]"
| "split_on sep (c # cs) =
     (if c = sep then [] # split_on sep cs
      else (case split_on sep cs of [] \<Rightarrow> [[c]] | f # fs \<Rightarrow> (c # f) # fs))"

text \<open>A library call on every element of a column: the first element that raises ends it.\<close>

fun traverse :: "('a \<Rightarrow> error + 'b) \<Rightarrow> 'a list \<Rightarrow> error + 'b list" where
  "traverse f [] = Inr []"
| "traverse f (v # vs) =
     (case f v of
        Inl e \<Rightarrow> Inl e
      | Inr w \<Rightarrow> (case traverse f vs of Inl e \<Rightarrow> Inl e | Inr ws \<Rightarrow> Inr (w # ws)))"

subsection \<open>Tables and data frames\<close>

text \<open>
  A table as \<open>read_html\<close> parses it: its columns in document order, each a name and
  its cells. A cell of a parsed table is a string (line 94: the data of the frame are
  strings) or missing: \<open>read_html\<close> gives the float \<open>NaN\<close> for an empty cell, here
  \<open>None\<close>. Columns that \<open>read_html\<close> infers to be numeric are outside the model.
  The frame that \<open>_parse_results_page\<close> builds holds typed cells: strings, calendar
  dates, integers, and the missing values \<open>NaN\<close> and \<open>NaT\<close>.
\<close>

record date =
  year :: nat
  month :: nat
  day :: nat

datatype cell = Str string | NaN | Timestamp date | NaT | Integer int

type_synonym 'a frame = "(string \<times> 'a list) list"
type_synonym table = "string option frame"
type_synonym data_frame = "cell frame"

definition columns :: "'a frame \<Rightarrow> string list" where
  "columns df = map fst df"

text \<open>\<open>df[name]\<close>: the column of that name, \<open>KeyError\<close> when the frame has none.\<close>

definition getitem :: "'a frame \<Rightarrow> string \<Rightarrow> error + 'a list" where
  "getitem df name = (case map_of df name of None \<Rightarrow> Inl (KeyError name) | Some col \<Rightarrow> Inr col)"

text \<open>
  \<open>df[name] = col\<close>: replaces the column of that name where it stands, or adds a new
  last column.
\<close>

definition setitem :: "string \<Rightarrow> 'a list \<Rightarrow> 'a frame \<Rightarrow> 'a frame" where
  "setitem name col df = AList.update name col df"

text \<open>\<open>df[[n1, n2, ...]]\<close>: the named columns, in the order of the names.\<close>

definition select :: "string list \<Rightarrow> 'a frame \<Rightarrow> error + 'a frame" where
  "select names df =
     traverse (\<lambda>name. case getitem df name of Inl e \<Rightarrow> Inl e | Inr col \<Rightarrow> Inr (name, col)) names"

definition of_parsed :: "string option \<Rightarrow> cell" where
  "of_parsed c = (case c of None \<Rightarrow> NaN | Some s \<Rightarrow> Str s)"

definition of_table :: "table \<Rightarrow> data_frame" where
  "of_table df = map (\<lambda>(name, col). (name, map of_parsed col)) df"

section \<open>The functions of the module\<close>

subsection \<open>\<open>_normalise_time_string\<close> (lines 46 to 52)\<close>

text \<open>
  \<open>time_str.count(':')\<close> is the number of colons of the string. A string with exactly
  one colon gets \<open>00:\<close> in front; every other string is returned as it is.
\<close>

definition str_count :: "string \<Rightarrow> char \<Rightarrow> nat" where
  "str_count s c = length (filter (\<lambda>d. d = c) s)"

definition normalise_time_string :: "string \<Rightarrow> string" where
  "normalise_time_string time_str =
     (if str_count time_str (CHR '':'') = 1 then ''00:'' @ time_str else time_str)"

subsection \<open>The duration and date parsers of the library\<close>

text \<open>
  Both parsers of \<open>pandas\<close> read the empty string and the strings of its list
  \<open>nat_strings\<close> as a missing value, and raise nothing for them.
\<close>

definition nat_strings :: "string list" where
  "nat_strings = [''NaT'', ''nat'', ''NAT'', ''nan'', ''NaN'', ''NAN'']"

definition is_missing :: "string \<Rightarrow> bool" where
  "is_missing s = (s = [] \<or> s \<in> set nat_strings)"

text \<open>
  Modelled from the spec: \<open>pandas.to_timedelta\<close> (line 99) is library code that is not
  under \<open>src/\<close>. The spec (4.3) describes it as parsing an hours:minutes:seconds string
  into a duration, and asks that every other shape be a parse failure. The model reads
  three fields of decimal digits separated by colons and raises \<open>ValueError\<close> on
  anything else that is not a missing value; the further notations that the library
  accepts (units, fractions, signs, day counts) are not modelled. The duration is a
  count of nanoseconds, \<open>None\<close> for the missing value \<open>NaT\<close>. Two limits of the
  library are part of the model: \<open>int\<close> refuses a numeral of more than 4300 digits
  (the default of the interpreter), and a duration that does not fit 64 bits raises
  \<open>OutOfBoundsTimedelta\<close>.
\<close>

definition max_str_digits :: nat where
  "max_str_digits = 4300"

definition int64_max :: nat where
  "int64_max = 2 ^ 63 - 1"

definition timedelta_ns :: "string \<Rightarrow> error + nat option" where
  "timedelta_ns s =
     (if is_missing s then Inr None
      else
        (case split_on (CHR '':'') s of
           [h, m, sec] \<Rightarrow>
             if is_digits h \<and> is_digits m \<and> is_digits sec then
               if max_str_digits < length h \<or> max_str_digits < length m
                  \<or> max_str_digits < length sec
               then Inl ValueError
               else if int64_max < (dec_val h * 3600 + dec_val m * 60 + dec_val sec) * 10 ^ 9
               then Inl OutOfBoundsTimedelta
               else Inr (Some ((dec_val h * 3600 + dec_val m * 60 + dec_val sec) * 10 ^ 9))
             else Inl ValueError
         | _ \<Rightarrow> Inl ValueError))"

definition to_timedelta :: "string list \<Rightarrow> error + nat option list" where
  "to_timedelta col = traverse timedelta_ns col"

text \<open>
  \<open>.dt.total_seconds()\<close> (line 99) divides the count of nanoseconds by \<open>10 ^ 9\<close> in
  double precision: the count is converted to the nearest double, and so is the
  quotient, ties going to the even neighbour; \<open>.astype(int)\<close> then drops the
  fraction. The doubles met here are rational numbers with a power of two as
  denominator, so the computation is written with natural numbers:
  \<open>round_half_even n d\<close> is \<open>n / d\<close> rounded to an integer, \<open>bit_length\<close> is
  Python's \<open>int.bit_length\<close>, and a double has 53 significant bits. From \<open>2 ^ 62\<close>
  nanoseconds on the result can be one second less than the exact quotient.
\<close>

definition round_half_even :: "nat \<Rightarrow> nat \<Rightarrow> nat" where
  "round_half_even n d =
     (if 2 * (n mod d) < d then n div d
      else if d < 2 * (n mod d) then n div d + 1
      else if even (n div d) then n div d else n div d + 1)"

fun bit_length :: "nat \<Rightarrow> nat" where
  "bit_length n = (if n = 0 then 0 else Suc (bit_length (n div 2)))"

declare bit_length.simps [simp del]

definition float64_of_nat :: "nat \<Rightarrow> nat" where
  "float64_of_nat n = round_half_even n (2 ^ (bit_length n - 53)) * 2 ^ (bit_length n - 53)"

definition total_seconds_int :: "nat \<Rightarrow> nat" where
  "total_seconds_int ns =
     (if float64_of_nat ns div 10 ^ 9 = 0 then 0
      else round_half_even
             (float64_of_nat ns * 2 ^ (53 - bit_length (float64_of_nat ns div 10 ^ 9)))
             (10 ^ 9)
           div 2 ^ (53 - bit_length (float64_of_nat ns div 10 ^ 9)))"

text \<open>The cast to \<open>int\<close> raises a \<open>ValueError\<close> for a missing value.\<close>

definition total_seconds_astype_int :: "nat option list \<Rightarrow> error + int list" where
  "total_seconds_astype_int col =
     traverse (\<lambda>t. case t of None \<Rightarrow> Inl ValueError
                        | Some ns \<Rightarrow> Inr (int (total_seconds_int ns))) col"

text \<open>
  \<open>Series.apply(_normalise_time_string)\<close> (line 99): the function on every cell. On a
  missing cell, a float, \<open>time_str.count\<close> raises \<open>AttributeError\<close>.
\<close>

definition apply_normalise_time_string :: "string option list \<Rightarrow> error + string list" where
  "apply_normalise_time_string col =
     traverse (\<lambda>c. case c of None \<Rightarrow> Inl AttributeError
                        | Some time_str \<Rightarrow> Inr (normalise_time_string time_str)) col"

text \<open>The right-hand side of line 99, on the column \<open>Time\<close>.\<close>

definition time_seconds_column :: "string option list \<Rightarrow> error + int list" where
  "time_seconds_column col =
     (case apply_normalise_time_string col of
        Inl e \<Rightarrow> Inl e
      | Inr time_strs \<Rightarrow>
          (case to_timedelta time_strs of
             Inl e \<Rightarrow> Inl e
           | Inr durations \<Rightarrow> total_seconds_astype_int durations))"

text \<open>
  Modelled from the spec: \<open>pandas.to_datetime(..., format="%d/%m/%Y")\<close> (line 96) is
  library code that is not under \<open>src/\<close>. The spec (4.3, 8) describes it as parsing
  day/month/4-digit-year into the calendar date and failing on every value that does
  not match. The model reads three fields separated by slashes: a day of one or two
  decimal digits, or of a space and one digit (what the directive \<open>%d\<close> accepts), a
  month of one or two digits and a year of exactly four, and accepts them when they
  name a day of the Gregorian calendar. Digits are the ASCII digits; the other decimal
  digits of Unicode, which the library accepts too, are not modelled. A date outside
  the range of the library's 64-bit count of nanoseconds, 22 September 1677 to
  11 April 2262, raises \<open>OutOfBoundsDatetime\<close>. A missing cell, the empty string and
  the strings of \<open>nat_strings\<close> give the missing value \<open>NaT\<close> and raise nothing.
\<close>

definition is_leap :: "nat \<Rightarrow> bool" where
  "is_leap y = (y mod 4 = 0 \<and> (y mod 100 \<noteq> 0 \<or> y mod 400 = 0))"

definition days_in_month :: "nat \<Rightarrow> nat \<Rightarrow> nat" where
  "days_in_month y m =
     (if m = 2 then (if is_leap y then 29 else 28)
      else if m = 4 \<or> m = 6 \<or> m = 9 \<or> m = 11 then 30 else 31)"

definition valid_date :: "nat \<Rightarrow> nat \<Rightarrow> nat \<Rightarrow> bool" where
  "valid_date y m d = (1 \<le> m \<and> m \<le> 12 \<and> 1 \<le> d \<and> d \<le> days_in_month y m)"

definition in_timestamp_range :: "nat \<Rightarrow> nat \<Rightarrow> nat \<Rightarrow> bool" where
  "in_timestamp_range y m d =
     ((1677 < y \<or> (y = 1677 \<and> (9 < m \<or> (m = 9 \<and> 22 \<le> d))))
      \<and> (y < 2262 \<or> (y = 2262 \<and> (m < 4 \<or> (m = 4 \<and> d \<le> 11)))))"

definition day_field :: "string \<Rightarrow> bool" where
  "day_field d =
     ((is_digits d \<and> length d \<le> 2)
      \<or> (length d = 2 \<and> hd d = CHR '' '' \<and> is_digits (tl d)))"

definition day_val :: "string \<Rightarrow> nat" where
  "day_val d = dec_val (filter is_digit d)"

definition strptime_dmy :: "string \<Rightarrow> error + date" where
  "strptime_dmy s =
     (case split_on (CHR ''/'') s of
        [d, m, y] \<Rightarrow>
          if day_field d \<and> is_digits m \<and> length m \<le> 2 \<and> is_digits y \<and> length y = 4
             \<and> valid_date (dec_val y) (dec_val m) (day_val d)
          then
            if in_timestamp_range (dec_val y) (dec_val m) (day_val d)
            then Inr \<lparr>year = dec_val y, month = dec_val m, day = day_val d\<rparr>
            else Inl OutOfBoundsDatetime
          else Inl ValueError
      | _ \<Rightarrow> Inl ValueError)"

definition to_datetime_value :: "string option \<Rightarrow> error + cell" where
  "to_datetime_value c =
     (case c of
        None \<Rightarrow> Inr NaT
      | Some s \<Rightarrow>
          if is_missing s then Inr NaT
          else (case strptime_dmy s of Inl e \<Rightarrow> Inl e | Inr d \<Rightarrow> Inr (Timestamp d)))"

definition to_datetime :: "string option list \<Rightarrow> error + cell list" where
  "to_datetime col = traverse to_datetime_value col"

subsection \<open>\<open>_parse_results_page\<close> (lines 81 to 101)\<close>

text \<open>
  Lines 87 to 92, the loop \<open>for df in tables: ... break\<close> with its \<open>else\<close>: the first
  table whose columns include the three names, \<open>RuntimeError\<close> when the loop ends
  without one.
\<close>

definition has_result_columns :: "table \<Rightarrow> bool" where
  "has_result_columns df = ({''Event'', ''Run Date'', ''Time''} \<subseteq> set (columns df))"

fun find_results_table :: "table list \<Rightarrow> error + table" where
  "find_results_table [] = Inl (RuntimeError ''Could not find results table'')"
| "find_results_table (df # tables) =
     (if has_result_columns df then Inr df else find_results_table tables)"

text \<open>
  \<open>read_html\<close> stands for \<open>pd.read_html\<close> on the page: the tables of the page in
  document order, or the exception it raises. Line 96 replaces the column
  \<open>Run Date\<close> by its dates, line 99 adds the column \<open>time_seconds\<close>, line 101 returns
  the three columns. Line 99 reads the column \<open>Time\<close> after line 96 has assigned
  \<open>Run Date\<close>; the assignment leaves every other column as parsed, so \<open>Time\<close> is
  read from the table as parsed and the two assignments are made on the frame of
  typed cells (\<open>of_table\<close>).
\<close>

definition parse_results_page ::
    "(string \<Rightarrow> error + table list) \<Rightarrow> string \<Rightarrow> error + data_frame" where
  "parse_results_page read_html page_contents =
     (case read_html page_contents of
        Inl e \<Rightarrow> Inl e
      | Inr tables \<Rightarrow>
     (case find_results_table tables of
        Inl e \<Rightarrow> Inl e
      | Inr results_df \<Rightarrow>
     (case getitem results_df ''Run Date'' of
        Inl e \<Rightarrow> Inl e
      | Inr run_date \<Rightarrow>
     (case to_datetime run_date of
        Inl e \<Rightarrow> Inl e
      | Inr dates \<Rightarrow>
     (case getitem results_df ''Time'' of
        Inl e \<Rightarrow> Inl e
      | Inr time_col \<Rightarrow>
     (case time_seconds_column time_col of
        Inl e \<Rightarrow> Inl e
      | Inr seconds \<Rightarrow>
          select [''Event'', ''Run Date'', ''time_seconds'']
            (setitem ''time_seconds'' (map Integer seconds)
              (setitem ''Run Date'' dates (of_table results_df)))))))))"

subsection \<open>\<open>_request_results_page\<close> (lines 55 to 78)\<close>

record request =
  url :: string
  headers :: "(string \<times> string) list"
  timeout :: nat

record response =
  status_code :: int
  response_text :: string

definition session_headers :: "(string \<times> string) list" where
  "session_headers =
     [(''User-Agent'',
         ''Mozilla/5.0 (Windows NT 10.0; Win64; x64; rv:93.0) Gecko/20100101 Firefox/93.0''),
      (''Accept'',
         ''text/html,application/xhtml+xml,application/xml;q=0.9,image/avif,image/webp,*/*;q=0.8''),
      (''Accept-Language'', ''en-US,en;q=0.5''),
      (''Accept-Encoding'', ''gzip, deflate, br''),
      (''DNT'', ''1''),
      (''Connection'', ''keep-alive''),
      (''Upgrade-Insecure-Requests'', ''1''),
      (''Sec-Fetch-Dest'', ''document''),
      (''Sec-Fetch-Mode'', ''navigate''),
      (''Sec-Fetch-Site'', ''none''),
      (''Sec-Fetch-User'', ''?1'')]"

text \<open>
  \<open>Response.raise_for_status\<close> of the \<open>requests\<close> library (line 76): it raises
  \<open>HTTPError\<close> for the client and server error statuses, 400 to 599, and returns
  for every other status.
\<close>

definition raise_for_status :: "response \<Rightarrow> error + unit" where
  "raise_for_status r =
     (if 400 \<le> status_code r \<and> status_code r < 600 then Inl (HTTPError (status_code r))
      else Inr ())"

text \<open>
  \<open>session_get\<close> stands for \<open>session.get\<close>: the response of the server, or the
  exception of a transport failure.
\<close>

definition results_request :: "string \<Rightarrow> request" where
  "results_request athlete_id =
     \<lparr>url = ''https://www.parkrun.org.uk/parkrunner/'' @ athlete_id @ ''/all/'',
      headers = session_headers, timeout = 10\<rparr>"

definition request_results_page ::
    "(request \<Rightarrow> error + response) \<Rightarrow> string \<Rightarrow> error + response" where
  "request_results_page session_get athlete_id =
     (case session_get (results_request athlete_id) of
        Inl e \<Rightarrow> Inl e
      | Inr response \<Rightarrow>
          (case raise_for_status response of Inl e \<Rightarrow> Inl e | Inr _ \<Rightarrow> Inr response))"

subsection \<open>\<open>_generate_graph\<close> (lines 32 to 43)\<close>

record figure =
  fig_x :: "cell list"
  fig_y :: "cell list"
  fig_title :: string
  xaxis_title :: string
  yaxis_title :: string
  tickvals :: "cell list option"
  ticktext :: "string list option"

text \<open>
  \<open>px.line\<close>: a line of the column \<open>y\<close> over the column \<open>x\<close>, the axes titled by
  the column names, the ticks left to the library (\<open>None\<close>); it raises \<open>ValueError\<close>
  for a name that is not a column of the frame.
\<close>

definition px_line :: "data_frame \<Rightarrow> string \<Rightarrow> string \<Rightarrow> string \<Rightarrow> error + figure" where
  "px_line df xname yname t =
     (case getitem df xname of
        Inl _ \<Rightarrow> Inl ValueError
      | Inr xs \<Rightarrow>
          (case getitem df yname of
             Inl _ \<Rightarrow> Inl ValueError
           | Inr ys \<Rightarrow>
               Inr \<lparr>fig_x = xs, fig_y = ys, fig_title = t, xaxis_title = xname,
                    yaxis_title = yname, tickvals = None, ticktext = None\<rparr>))"

text \<open>
  The element of the list comprehension of line 37, \<open>f"{v//60:02d}:{v % 60:02d}"\<close>.
  Python's \<open>//\<close> and \<open>%\<close> round towards minus infinity, as \<open>div\<close> and \<open>mod\<close> on
  \<open>int\<close> do. A string or a date raises \<open>TypeError\<close>; the missing values cannot
  stand in the column \<open>time_seconds\<close>, which line 99 casts to \<open>int\<close>, and are given
  the same error.
\<close>

definition tick_text :: "cell \<Rightarrow> error + string" where
  "tick_text c =
     (case c of
        Integer v \<Rightarrow> Inr (format_02d (v div 60) @ '':'' @ format_02d (v mod 60))
      | _ \<Rightarrow> Inl TypeError)"

text \<open>The result is the figure as written, with the name of the file it is written to.\<close>

definition generate_graph :: "data_frame \<Rightarrow> error + string \<times> figure" where
  "generate_graph data_frame =
     (case px_line data_frame ''Run Date'' ''time_seconds'' ''Parkrun results'' of
        Inl e \<Rightarrow> Inl e
      | Inr fig \<Rightarrow>
     (case getitem data_frame ''time_seconds'' of
        Inl e \<Rightarrow> Inl e
      | Inr time_seconds \<Rightarrow>
     (case traverse tick_text time_seconds of
        Inl e \<Rightarrow> Inl e
      | Inr texts \<Rightarrow>
          Inr (''results.html'',
               fig\<lparr>xaxis_title := ''Date'', yaxis_title := ''Time (minute:seconds)'',
                   tickvals := Some time_seconds, ticktext := Some texts\<rparr>))))"

subsection \<open>\<open>analyse_results\<close> (lines 12 to 29)\<close>

definition analyse_results ::
    "(request \<Rightarrow> error + response) \<Rightarrow> (string \<Rightarrow> error + table list) \<Rightarrow> string
      \<Rightarrow> error + string \<times> figure" where
  "analyse_results session_get read_html athlete_id =
     (case request_results_page session_get athlete_id of
        Inl e \<Rightarrow> Inl e
      | Inr response \<Rightarrow>
          if status_code response \<noteq> 200 then
            (if status_code response = 202
             then Inl (RuntimeError ''Load page manually and try again'')
             else Inl (RuntimeError
                        (''Failed to load page, error code: '' @ str_int (status_code response))))
          else
            (case parse_results_page read_html (response_text response) of
               Inl e \<Rightarrow> Inl e
             | Inr data_frame \<Rightarrow> generate_graph data_frame))"

subsection \<open>An example page\<close>

text \<open>
  The tables of a page used to run the functions on: a table that lacks the column
  \<open>Run Date\<close>, then the results table of the spec's end-to-end scenario with its
  columns in another order and one more column, then a second table with the three
  columns. \<open>example_result\<close> is the result set the spec gives for the scenario.
\<close>

definition example_page :: "table list" where
  "example_page =
     [[(''Event'', [Some ''Riverside parkrun'']), (''Date'', [Some ''04/01/2020'']),
       (''Time'', [Some ''25:13''])],
      [(''extra'', [Some ''a'', Some ''b'']),
       (''Time'', [Some ''25:13'', Some ''1:05:00'']),
       (''Event'', [Some ''Riverside parkrun'', Some ''Riverside parkrun'']),
       (''Run Date'', [Some ''04/01/2020'', Some ''11/01/2020''])],
      [(''Event'', [Some ''Other parkrun'']), (''Run Date'', [Some ''18/01/2020'']),
       (''Time'', [Some ''24:00''])]]"

definition example_result :: data_frame where
  "example_result =
     [(''Event'', [Str ''Riverside parkrun'', Str ''Riverside parkrun'']),
      (''Run Date'', [Timestamp \<lparr>year = 2020, month = 1, day = 4\<rparr>,
                      Timestamp \<lparr>year = 2020, month = 1, day = 11\<rparr>]),
      (''time_seconds'', [Integer 1513, Integer 3900])]"


definition missing_date_page :: "table list" where
  "missing_date_page =
     [[(''Event'', [Some ''Riverside parkrun'', Some ''Riverside parkrun'']),
       (''Run Date'', [Some ''04/01/2020'', None]),
       (''Time'', [Some ''25:13'', Some ''1:05:00''])]]"

definition long_minutes_page :: "table list" where
  "long_minutes_page =
     [[(''Event'', [Some ''Riverside parkrun'']),
       (''Run Date'', [Some ''04/01/2020'']),
       (''Time'', [Some ''153722867:17''])]]"

definition long_hours_page :: "table list" where
  "long_hours_page =
     [[(''Event'', [Some ''Riverside parkrun'']),
       (''Run Date'', [Some ''04/01/2020'']),
       (''Time'', [Some ''2562047:47:17''])]]"

section \<open>Lemmas about the helpers\<close>

subsection \<open>Splitting and counting\<close>

lemma split_on_not_Nil: "split_on sep s \<noteq> []"
  by (induction s) (auto split: list.splits)

lemma split_on_no_sep: "sep \<notin> set a \<Longrightarrow> split_on sep a = [a]"
  by (induction a) auto

lemma split_on_field: "sep \<notin> set a \<Longrightarrow> split_on sep (a @ sep # rest) = a # split_on sep rest"
  by (induction a) (auto split: list.splits simp: split_on_not_Nil)



lemma str_count_append: "str_count (a @ b) c = str_count a c + str_count b c"
  by (simp add: str_count_def)

lemma str_count_absent: "c \<notin> set s \<Longrightarrow> str_count s c = 0"
  by (induction s) (auto simp: str_count_def)

lemma str_count_Cons: "str_count (d # s) c = (if d = c then Suc (str_count s c) else str_count s c)"
  by (simp add: str_count_def)

lemma str_count_Nil: "str_count [] c = 0"
  by (simp add: str_count_def)

subsection \<open>Digits\<close>

lemma is_digits_no_colon: "is_digits s \<Longrightarrow> CHR '':'' \<notin> set s"
proof
  assume d: "is_digits s" and "CHR '':'' \<in> set s"
  then have "is_digit (CHR '':'')" by (simp add: is_digits_def list_all_iff)
  then show False by (simp add: is_digit_def)
qed

lemma is_digits_no_slash: "is_digits s \<Longrightarrow> CHR ''/'' \<notin> set s"
proof
  assume d: "is_digits s" and "CHR ''/'' \<in> set s"
  then have "is_digit (CHR ''/'')" by (simp add: is_digits_def list_all_iff)
  then show False by (simp add: is_digit_def)
qed

subsection \<open>Columns\<close>

lemma traverse_Inr_map: "traverse f xs = Inr ys \<Longrightarrow> map f xs = map Inr ys"
proof (induction xs arbitrary: ys)
  case Nil
  then show ?case by simp
next
  case (Cons v vs)
  from Cons.prems obtain w ws where w: "f v = Inr w" "traverse f vs = Inr ws" "ys = w # ws"
    by (auto split: sum.splits)
  from Cons.IH [OF w(2)] w show ?case by simp
qed

lemma map_traverse: "map f xs = map Inr ys \<Longrightarrow> traverse f xs = Inr ys"
proof (induction xs arbitrary: ys)
  case Nil
  then show ?case by simp
next
  case (Cons v vs)
  from Cons.prems obtain w ws where w: "ys = w # ws" "f v = Inr w" "map f vs = map Inr ws"
    by (cases ys) auto
  from Cons.IH [OF w(3)] w show ?case by simp
qed



subsection \<open>Clock strings\<close>

lemma str_count_one_colon:
  assumes "CHR '':'' \<notin> set a" and "CHR '':'' \<notin> set b"
  shows "str_count (a @ '':'' @ b) (CHR '':'') = 1"
  using assms by (simp add: str_count_append str_count_Cons str_count_absent)

lemma str_count_two_colons:
  assumes "CHR '':'' \<notin> set a" and "CHR '':'' \<notin> set b" and "CHR '':'' \<notin> set c"
  shows "str_count (a @ '':'' @ b @ '':'' @ c) (CHR '':'') = 2"
  using assms by (simp add: str_count_append str_count_Cons str_count_absent)

lemma split_on_three_fields:
  assumes "sep \<notin> set a" and "sep \<notin> set b" and "sep \<notin> set c"
  shows "split_on sep (a @ sep # b @ sep # c) = [a, b, c]"
  using assms by (simp add: split_on_field split_on_no_sep)

subsection \<open>Tables and frames\<close>


lemma find_results_table_none:
  "\<forall>t \<in> set tables. \<not> has_result_columns t
   \<Longrightarrow> find_results_table tables = Inl (RuntimeError ''Could not find results table'')"
  by (induction tables) auto

lemma find_results_table_Inr:
  assumes "find_results_table tables = Inr df"
  shows "has_result_columns df \<and> df \<in> set tables"
  using assms by (induction tables) (auto split: if_splits)

lemma getitem_present:
  assumes "name \<in> set (columns df)"
  shows "\<exists>col. getitem df name = Inr col"
proof -
  from assms have "name \<in> dom (map_of df)" by (simp add: columns_def dom_map_of_conv_image_fst)
  then show ?thesis by (auto simp: getitem_def)
qed

lemma getitem_setitem:
  "getitem (setitem k col df) name = (if name = k then Inr col else getitem df name)"
  by (simp add: getitem_def setitem_def update_conv')

subsection \<open>The fetcher and the example\<close>

lemma request_results_page_response:
  assumes "session_get (results_request athlete_id) = Inr r"
  shows "request_results_page session_get athlete_id =
           (if 400 \<le> status_code r \<and> status_code r < 600 then Inl (HTTPError (status_code r))
            else Inr r)"
  using assms by (simp add: request_results_page_def raise_for_status_def)

lemma str_int_600: "str_int 600 = ''600''" by code_simp
lemma str_int_301: "str_int 301 = ''301''" by code_simp

lemma generate_graph_example:
  "generate_graph example_result =
     Inr (''results.html'',
          \<lparr>fig_x = [Timestamp \<lparr>year = 2020, month = 1, day = 4\<rparr>,
                    Timestamp \<lparr>year = 2020, month = 1, day = 11\<rparr>],
           fig_y = [Integer 1513, Integer 3900],
           fig_title = ''Parkrun results'', xaxis_title = ''Date'',
           yaxis_title = ''Time (minute:seconds)'',
           tickvals = Some [Integer 1513, Integer 3900],
           ticktext = Some [''25:13'', ''65:00'']\<rparr>)"
  by code_simp

subsection \<open>Decimal numerals and tick texts\<close>

lemma str_nat_one_digit: "n < 10 \<Longrightarrow> str_nat n = [digit_char n]"
  by (simp add: str_nat.simps)

lemma str_nat_two_digits:
  assumes "10 \<le> n" and "n < 100"
  shows "str_nat n = [digit_char (n div 10), digit_char (n mod 10)]"
proof -
  from assms have "n div 10 < 10" by simp
  then have "str_nat (n div 10) = [digit_char (n div 10)]" by (rule str_nat_one_digit)
  with assms show ?thesis by (subst str_nat.simps) simp
qed

lemma length_str_nat_pos: "0 < length (str_nat n)"
  by (subst str_nat.simps) simp

lemma length_str_nat_ge2:
  assumes "10 \<le> n"
  shows "2 \<le> length (str_nat n)"
proof -
  have "Suc 0 \<le> length (str_nat (n div 10))"
    using length_str_nat_pos [of "n div 10"] by (simp only: Suc_le_eq One_nat_def)
  moreover from assms have "str_nat n = str_nat (n div 10) @ [digit_char (n mod 10)]"
    by (subst str_nat.simps) simp
  ultimately show ?thesis by simp
qed

lemma format_02d_nonneg:
  assumes "0 \<le> v"
  shows "format_02d v = (if v < 10 then [CHR ''0'', digit_char (nat v)] else str_nat (nat v))"
proof (cases "v < 10")
  case True
  with assms have "str_nat (nat v) = [digit_char (nat v)]" by (intro str_nat_one_digit) simp
  with True assms show ?thesis by (simp add: format_02d_def zfill_def)
next
  case False
  then have "2 \<le> length (str_nat (nat v))" by (intro length_str_nat_ge2) simp
  with False assms show ?thesis by (simp add: format_02d_def zfill_def)
qed

lemma tick_text_nonneg:
  assumes "0 \<le> v"
  shows "tick_text (Integer v) =
           Inr ((if v < 600 then [CHR ''0'', digit_char (nat (v div 60))]
                 else if v < 6000 then [digit_char (nat (v div 60) div 10),
                                        digit_char (nat (v div 60) mod 10)]
                 else str_nat (nat (v div 60)))
                @ [CHR '':'', digit_char (nat (v mod 60) div 10), digit_char (nat (v mod 60) mod 10)])"
proof -
  from assms have m: "0 \<le> v div 60" by simp
  have s: "0 \<le> v mod 60" "v mod 60 < 60" by simp_all
  have sec: "format_02d (v mod 60)
             = [digit_char (nat (v mod 60) div 10), digit_char (nat (v mod 60) mod 10)]"
  proof (cases "v mod 60 < 10")
    case True
    with s have "nat (v mod 60) div 10 = 0" "nat (v mod 60) mod 10 = nat (v mod 60)" by simp_all
    moreover have "digit_char 0 = CHR ''0''" by (simp add: digit_char_def)
    ultimately show ?thesis using True s by (simp add: format_02d_nonneg)
  next
    case False
    with s have "10 \<le> nat (v mod 60)" "nat (v mod 60) < 100" by simp_all
    from str_nat_two_digits [OF this] False s show ?thesis by (simp add: format_02d_nonneg)
  qed
  have min: "format_02d (v div 60)
             = (if v < 600 then [CHR ''0'', digit_char (nat (v div 60))]
                else if v < 6000 then [digit_char (nat (v div 60) div 10),
                                       digit_char (nat (v div 60) mod 10)]
                else str_nat (nat (v div 60)))"
  proof -
    consider "v < 600" | "600 \<le> v" "v < 6000" | "6000 \<le> v" by linarith
    then show ?thesis
    proof cases
      case 1
      then have "v div 60 < 10" by simp
      with 1 m show ?thesis by (simp add: format_02d_nonneg)
    next
      case 2
      then have b: "10 \<le> v div 60" "v div 60 < 100" by simp_all
      then have "10 \<le> nat (v div 60)" "nat (v div 60) < 100" by simp_all
      from str_nat_two_digits [OF this] 2 b m show ?thesis by (simp add: format_02d_nonneg)
    next
      case 3
      then have "100 \<le> v div 60" by simp
      with 3 m show ?thesis by (simp add: format_02d_nonneg)
    qed
  qed
  show ?thesis by (simp add: tick_text_def sec min)
qed

subsection \<open>Missing values and clock strings\<close>

lemma is_missing_no_colon: "is_missing s \<Longrightarrow> s \<noteq> [] \<Longrightarrow> CHR '':'' \<notin> set s"
  by (auto simp: is_missing_def nat_strings_def)


lemma timedelta_ns_clock:
  assumes "is_digits h" and "is_digits m" and "is_digits sec"
    and "length h \<le> max_str_digits" and "length m \<le> max_str_digits"
    and "length sec \<le> max_str_digits"
    and "(dec_val h * 3600 + dec_val m * 60 + dec_val sec) * 10 ^ 9 \<le> int64_max"
  shows "timedelta_ns (h @ '':'' @ m @ '':'' @ sec)
         = Inr (Some ((dec_val h * 3600 + dec_val m * 60 + dec_val sec) * 10 ^ 9))"
proof -
  have f: "split_on (CHR '':'') (h @ CHR '':'' # m @ CHR '':'' # sec) = [h, m, sec]"
    using assms(1-3) by (intro split_on_three_fields is_digits_no_colon)
  have "\<not> is_missing (h @ CHR '':'' # m @ CHR '':'' # sec)"
    using is_missing_no_colon [of "h @ CHR '':'' # m @ CHR '':'' # sec"] by auto
  with f assms show ?thesis by (simp add: timedelta_ns_def)
qed


lemma time_seconds_column_Inr:
  assumes "time_seconds_column col = Inr secs"
  shows "\<exists>time_strs durations.
           col = map Some time_strs
         \<and> map (\<lambda>s. timedelta_ns (normalise_time_string s)) time_strs
             = map (\<lambda>ns. Inr (Some ns)) durations
         \<and> secs = map (\<lambda>ns. int (total_seconds_int ns)) durations"
proof -
  from assms obtain strs tds where a: "apply_normalise_time_string col = Inr strs"
    and t: "to_timedelta strs = Inr tds" and c: "total_seconds_astype_int tds = Inr secs"
    by (auto simp: time_seconds_column_def split: sum.splits)
  let ?ap = "\<lambda>c. case c of None \<Rightarrow> Inl AttributeError
                        | Some time_str \<Rightarrow> Inr (normalise_time_string time_str)"
  let ?ts = "\<lambda>t. case t of None \<Rightarrow> Inl ValueError | Some ns \<Rightarrow> Inr (int (total_seconds_int ns))"
  from a have ma: "map ?ap col = map Inr strs"
    unfolding apply_normalise_time_string_def by (rule traverse_Inr_map)
  from t have mt: "map timedelta_ns strs = map Inr tds"
    unfolding to_timedelta_def by (rule traverse_Inr_map)
  from c have mc: "map ?ts tds = map Inr secs"
    unfolding total_seconds_astype_int_def by (rule traverse_Inr_map)
  have len: "length col = length strs" "length strs = length tds" "length tds = length secs"
    using ma mt mc by (metis length_map)+
  have some: "col ! i = Some (the (col ! i)) \<and> strs ! i = normalise_time_string (the (col ! i))"
    if "i < length col" for i
  proof -
    from ma that len have "?ap (col ! i) = Inr (strs ! i)" by (metis nth_map)
    then show ?thesis by (cases "col ! i") auto
  qed
  have dur: "tds ! i = Some (the (tds ! i)) \<and> secs ! i = int (total_seconds_int (the (tds ! i)))"
    if "i < length tds" for i
  proof -
    from mc that len have "?ts (tds ! i) = Inr (secs ! i)" by (metis nth_map)
    then show ?thesis by (cases "tds ! i") auto
  qed
  have 1: "col = map Some (map the col)"
    using some by (intro nth_equalityI) simp_all
  have 2: "map (\<lambda>s. timedelta_ns (normalise_time_string s)) (map the col)
           = map (\<lambda>ns. Inr (Some ns)) (map the tds)"
  proof (intro nth_equalityI)
    show "length (map (\<lambda>s. timedelta_ns (normalise_time_string s)) (map the col))
          = length (map (\<lambda>ns. Inr (Some ns)) (map the tds))"
      using len by simp
  next
    fix i assume "i < length (map (\<lambda>s. timedelta_ns (normalise_time_string s)) (map the col))"
    then have i: "i < length col" by simp
    with len have "timedelta_ns (strs ! i) = Inr (tds ! i)" using mt by (metis nth_map)
    with some [OF i] dur [of i] i len
    show "map (\<lambda>s. timedelta_ns (normalise_time_string s)) (map the col) ! i
          = map (\<lambda>ns. Inr (Some ns)) (map the tds) ! i"
      by simp
  qed
  have 3: "secs = map (\<lambda>ns. int (total_seconds_int ns)) (map the tds)"
    using dur len by (intro nth_equalityI) simp_all
  from 1 2 3 show ?thesis by blast
qed

lemma time_seconds_column_map:
  assumes "map (\<lambda>s. timedelta_ns (normalise_time_string s)) time_strs
             = map (\<lambda>ns. Inr (Some ns)) durations"
  shows "time_seconds_column (map Some time_strs) = Inr (map (\<lambda>ns. int (total_seconds_int ns)) durations)"
proof -
  have a: "apply_normalise_time_string (map Some time_strs)
           = Inr (map normalise_time_string time_strs)"
    unfolding apply_normalise_time_string_def by (rule map_traverse) simp
  have "map timedelta_ns (map normalise_time_string time_strs) = map Inr (map Some durations)"
    using assms by (simp add: comp_def)
  then have t: "to_timedelta (map normalise_time_string time_strs) = Inr (map Some durations)"
    unfolding to_timedelta_def by (rule map_traverse)
  have c: "total_seconds_astype_int (map Some durations)
           = Inr (map (\<lambda>ns. int (total_seconds_int ns)) durations)"
    unfolding total_seconds_astype_int_def by (rule map_traverse) simp
  from a t c show ?thesis by (simp add: time_seconds_column_def)
qed

lemma time_seconds_column_append:
  assumes "time_seconds_column xs = Inr a" and "time_seconds_column ys = Inr b"
  shows "time_seconds_column (xs @ ys) = Inr (a @ b)"
proof -
  from time_seconds_column_Inr [OF assms(1)] obtain s1 d1 where 1: "xs = map Some s1"
    "map (\<lambda>s. timedelta_ns (normalise_time_string s)) s1 = map (\<lambda>ns. Inr (Some ns)) d1"
    "a = map (\<lambda>ns. int (total_seconds_int ns)) d1" by blast
  from time_seconds_column_Inr [OF assms(2)] obtain s2 d2 where 2: "ys = map Some s2"
    "map (\<lambda>s. timedelta_ns (normalise_time_string s)) s2 = map (\<lambda>ns. Inr (Some ns)) d2"
    "b = map (\<lambda>ns. int (total_seconds_int ns)) d2" by blast
  from 1 2 have "map (\<lambda>s. timedelta_ns (normalise_time_string s)) (s1 @ s2)
                 = map (\<lambda>ns. Inr (Some ns)) (d1 @ d2)" by simp
  from time_seconds_column_map [OF this] 1 2 show ?thesis by simp
qed

lemma bit_length_less: "n < 2 ^ k \<Longrightarrow> bit_length n \<le> k"
proof (induction k arbitrary: n)
  case 0
  then show ?case by (simp add: bit_length.simps)
next
  case (Suc k)
  show ?case
  proof (cases "n = 0")
    case True
    then show ?thesis by (simp add: bit_length.simps)
  next
    case False
    from Suc.prems have "n div 2 < 2 ^ k" by simp
    from Suc.IH [OF this] False show ?thesis by (subst bit_length.simps) simp
  qed
qed

lemma round_half_even_dvd: "0 < d \<Longrightarrow> d dvd n \<Longrightarrow> round_half_even n d = n div d"
  by (simp add: round_half_even_def)

lemma float64_of_nat_exact:
  assumes "n < 2 ^ 62" and "2 ^ 9 dvd n"
  shows "float64_of_nat n = n"
proof -
  let ?e = "bit_length n - 53"
  from bit_length_less [OF assms(1)] have "?e \<le> 9" by simp
  then have "(2::nat) ^ ?e dvd 2 ^ 9" by (rule le_imp_power_dvd)
  from this assms(2) have d: "(2::nat) ^ ?e dvd n" by (rule dvd_trans)
  then have "round_half_even n (2 ^ ?e) = n div 2 ^ ?e"
    by (intro round_half_even_dvd) simp_all
  with d show ?thesis by (simp add: float64_of_nat_def)
qed

lemma total_seconds_int_exact:
  assumes "s \<le> 4611686018"
  shows "total_seconds_int (s * 10 ^ 9) = s"
proof -
  from assms have "s * 10 ^ 9 \<le> 4611686018 * 10 ^ 9" by (rule mult_le_mono1)
  also have "\<dots> < (2::nat) ^ 62" by simp
  finally have small: "s * 10 ^ 9 < 2 ^ 62" .
  have "(2::nat) ^ 9 dvd 10 ^ 9" by simp
  then have "(2::nat) ^ 9 dvd s * 10 ^ 9" by (rule dvd_mult)
  with small have x: "float64_of_nat (s * 10 ^ 9) = s * 10 ^ 9"
    by (rule float64_of_nat_exact)
  let ?k = "53 - bit_length s"
  have "round_half_even (s * 10 ^ 9 * 2 ^ ?k) (10 ^ 9) = s * 10 ^ 9 * 2 ^ ?k div 10 ^ 9"
    by (intro round_half_even_dvd) simp_all
  also have "\<dots> = s * 2 ^ ?k" by simp
  finally have "round_half_even (s * 10 ^ 9 * 2 ^ ?k) (10 ^ 9) div 2 ^ ?k = s" by simp
  with x show ?thesis by (simp add: total_seconds_int_def)
qed

text \<open>
  One second above \<open>2 ^ 62\<close> nanoseconds the double nearest to the count is 512
  nanoseconds below it, and the quotient falls under the whole second.
\<close>

lemma bit_length_eq: "2 ^ k \<le> n \<Longrightarrow> n < 2 ^ Suc k \<Longrightarrow> bit_length n = Suc k"
proof (induction k arbitrary: n)
  case 0
  then have "n = 1" by simp
  then show ?case by (simp add: bit_length.simps)
next
  case (Suc k)
  from Suc.prems have "2 ^ k \<le> n div 2" "n div 2 < 2 ^ Suc k" by simp_all
  from Suc.IH [OF this] Suc.prems show ?case by (subst bit_length.simps) auto
qed

lemma total_seconds_int_loses_a_second:
  "total_seconds_int (4611686021 * 10 ^ 9) = 4611686020"
proof -
  have b: "bit_length 4611686021000000000 = Suc 62"
    by (rule bit_length_eq) simp_all
  have f: "float64_of_nat 4611686021000000000 = 4611686020999999488"
    by (simp add: float64_of_nat_def b round_half_even_def)
  have w: "bit_length 4611686020 = Suc 32"
    by (rule bit_length_eq) simp_all
  show ?thesis
    by (simp add: total_seconds_int_def f w round_half_even_def)
qed

lemma total_seconds_int_examples:
  "total_seconds_int 1513000000000 = 1513"
  "total_seconds_int 3900000000000 = 3900"
  using total_seconds_int_exact [of 1513] total_seconds_int_exact [of 3900] by simp_all

lemma time_seconds_column_clock:
  assumes "is_digits h" and "is_digits m" and "is_digits sec"
    and "length h \<le> max_str_digits" and "length m \<le> max_str_digits"
    and "length sec \<le> max_str_digits"
    and "dec_val h * 3600 + dec_val m * 60 + dec_val sec \<le> 4611686018"
    and "normalise_time_string time_str = h @ '':'' @ m @ '':'' @ sec"
    and "time_seconds_column before = Inr secs_before"
    and "time_seconds_column after = Inr secs_after"
  shows "time_seconds_column (before @ Some time_str # after)
         = Inr (secs_before @ int (dec_val h * 3600 + dec_val m * 60 + dec_val sec) # secs_after)"
proof -
  let ?s = "dec_val h * 3600 + dec_val m * 60 + dec_val sec"
  from assms(7) have "?s * 10 ^ 9 \<le> 4611686018 * 10 ^ 9" by (rule mult_le_mono1)
  also have "\<dots> \<le> int64_max" by (simp add: int64_max_def)
  finally have "?s * 10 ^ 9 \<le> int64_max" .
  from timedelta_ns_clock [OF assms(1-6) this] assms(8)
  have "map (\<lambda>s. timedelta_ns (normalise_time_string s)) [time_str]
        = map (\<lambda>ns. Inr (Some ns)) [?s * 10 ^ 9]"
    by simp
  from time_seconds_column_map [OF this] total_seconds_int_exact [OF assms(7)]
  have one: "time_seconds_column [Some time_str] = Inr [int ?s]" by simp
  from time_seconds_column_append [OF one assms(10)]
  have "time_seconds_column (Some time_str # after) = Inr (int ?s # secs_after)" by simp
  from time_seconds_column_append [OF assms(9) this] show ?thesis .
qed

subsection \<open>The parsing stage\<close>

lemma getitem_of_table:
  "getitem (of_table df) name
   = (case getitem df name of Inl e \<Rightarrow> Inl e | Inr col \<Rightarrow> Inr (map of_parsed col))"
  by (simp add: getitem_def of_table_def map_of_map split: option.splits)

lemma select_result_columns:
  assumes "getitem df ''Event'' = Inr ev"
  shows "select [''Event'', ''Run Date'', ''time_seconds'']
           (setitem ''time_seconds'' secs (setitem ''Run Date'' dates (of_table df)))
         = Inr [(''Event'', map of_parsed ev), (''Run Date'', dates), (''time_seconds'', secs)]"
  using assms by (simp add: select_def getitem_setitem getitem_of_table)

lemma parse_results_page_Inr:
  assumes "read_html page_contents = Inr tables"
    and "parse_results_page read_html page_contents = Inr out"
  shows "\<exists>results_df ev run_date time_col dates seconds.
           find_results_table tables = Inr results_df
         \<and> getitem results_df ''Event'' = Inr ev
         \<and> getitem results_df ''Run Date'' = Inr run_date
         \<and> getitem results_df ''Time'' = Inr time_col
         \<and> to_datetime run_date = Inr dates
         \<and> time_seconds_column time_col = Inr seconds
         \<and> out = [(''Event'', map of_parsed ev), (''Run Date'', dates),
                   (''time_seconds'', map Integer seconds)]"
proof -
  from assms obtain results_df run_date dates time_col seconds
    where f: "find_results_table tables = Inr results_df"
      and r: "getitem results_df ''Run Date'' = Inr run_date"
      and d: "to_datetime run_date = Inr dates"
      and t: "getitem results_df ''Time'' = Inr time_col"
      and s: "time_seconds_column time_col = Inr seconds"
      and o: "select [''Event'', ''Run Date'', ''time_seconds'']
                (setitem ''time_seconds'' (map Integer seconds)
                  (setitem ''Run Date'' dates (of_table results_df))) = Inr out"
    by (auto simp: parse_results_page_def split: sum.splits)
  from find_results_table_Inr [OF f] have "''Event'' \<in> set (columns results_df)"
    by (simp add: has_result_columns_def)
  from getitem_present [OF this] obtain ev where e: "getitem results_df ''Event'' = Inr ev"
    by blast
  from o select_result_columns [OF e] have
    "out = [(''Event'', map of_parsed ev), (''Run Date'', dates),
            (''time_seconds'', map Integer seconds)]"
    by simp
  with f e r d t s show ?thesis by blast
qed

lemma parse_results_page_returns:
  assumes "read_html page_contents = Inr tables"
    and "find_results_table tables = Inr results_df"
    and "getitem results_df ''Run Date'' = Inr run_date"
    and "to_datetime run_date = Inr dates"
    and "getitem results_df ''Time'' = Inr time_col"
    and "time_seconds_column time_col = Inr seconds"
  shows "\<exists>ev. getitem results_df ''Event'' = Inr ev
           \<and> parse_results_page read_html page_contents
               = Inr [(''Event'', map of_parsed ev), (''Run Date'', dates),
                      (''time_seconds'', map Integer seconds)]"
proof -
  from find_results_table_Inr [OF assms(2)] have "''Event'' \<in> set (columns results_df)"
    by (simp add: has_result_columns_def)
  from getitem_present [OF this] obtain ev where e: "getitem results_df ''Event'' = Inr ev"
    by blast
  from assms select_result_columns [OF e] have
    "parse_results_page read_html page_contents
     = Inr [(''Event'', map of_parsed ev), (''Run Date'', dates),
            (''time_seconds'', map Integer seconds)]"
    by (simp add: parse_results_page_def)
  with e show ?thesis by blast
qed

lemmas model_defs =
  parse_results_page_def has_result_columns_def columns_def getitem_def
  to_datetime_def to_datetime_value_def is_missing_def nat_strings_def strptime_dmy_def
  day_field_def day_val_def is_digits_def is_digit_def dec_val_def digit_val_def valid_date_def
  days_in_month_def is_leap_def in_timestamp_range_def time_seconds_column_def
  apply_normalise_time_string_def normalise_time_string_def str_count_def to_timedelta_def
  timedelta_ns_def max_str_digits_def int64_max_def total_seconds_astype_int_def select_def
  setitem_def of_table_def of_parsed_def total_seconds_int_examples

lemma parse_example_page:
  "parse_results_page (\<lambda>_. Inr example_page) '''' = Inr example_result"
  by (simp add: model_defs example_page_def example_result_def)

lemma parse_missing_date_page:
  "parse_results_page (\<lambda>_. Inr missing_date_page) ''''
   = Inr [(''Event'', [Str ''Riverside parkrun'', Str ''Riverside parkrun'']),
          (''Run Date'', [Timestamp \<lparr>year = 2020, month = 1, day = 4\<rparr>, NaT]),
          (''time_seconds'', [Integer 1513, Integer 3900])]"
  by (simp add: model_defs missing_date_page_def)

lemma parse_long_minutes_page:
  "parse_results_page (\<lambda>_. Inr long_minutes_page) '''' = Inl OutOfBoundsTimedelta"
  by (simp add: model_defs long_minutes_page_def)

lemma parse_long_hours_page:
  "parse_results_page (\<lambda>_. Inr long_hours_page) '''' = Inl OutOfBoundsTimedelta"
  by (simp add: model_defs long_hours_page_def)






lemma day_field_no_slash: "day_field d \<Longrightarrow> CHR ''/'' \<notin> set d"
proof
  assume f: "day_field d" and s: "CHR ''/'' \<in> set d"
  show False
  proof (cases "is_digits d")
    case True
    with s is_digits_no_slash show ?thesis by blast
  next
    case False
    with f have l: "length d = 2" and h: "hd d = CHR '' ''" and t: "is_digits (tl d)"
      by (simp_all add: day_field_def)
    from l obtain a b where d: "d = [a, b]"
      by (cases d; cases "tl d") auto
    with h s have "CHR ''/'' \<in> set (tl d)" by auto
    with t is_digits_no_slash show ?thesis by blast
  qed
qed






subsection \<open>The example page\<close>

lemma example_page_table:
  "find_results_table example_page = Inr (example_page ! 1)"
  by (simp add: example_page_def has_result_columns_def columns_def)

lemma example_page_columns:
  "getitem (example_page ! 1) ''Run Date'' = Inr [Some ''04/01/2020'', Some ''11/01/2020'']"
  "getitem (example_page ! 1) ''Time'' = Inr [Some ''25:13'', Some ''1:05:00'']"
  "getitem (example_page ! 1) ''Event''
   = Inr [Some ''Riverside parkrun'', Some ''Riverside parkrun'']"
  by (simp_all add: example_page_def getitem_def)

lemma example_page_dates:
  "to_datetime [Some ''04/01/2020'', Some ''11/01/2020'']
   = Inr [Timestamp \<lparr>year = 2020, month = 1, day = 4\<rparr>,
          Timestamp \<lparr>year = 2020, month = 1, day = 11\<rparr>]"
  "to_datetime [] = Inr []"
  "to_datetime [Some ''11/01/2020''] = Inr [Timestamp \<lparr>year = 2020, month = 1, day = 11\<rparr>]"
  by (simp_all add: model_defs)

lemma example_page_seconds:
  "time_seconds_column [] = Inr []"
  "time_seconds_column [Some ''25:13''] = Inr [1513]"
  "time_seconds_column [Some ''1:05:00''] = Inr [3900]"
  "time_seconds_column [Some ''25:13'', Some ''1:05:00''] = Inr [1513, 3900]"
  by (simp_all add: model_defs)

section \<open>Time strings\<close>

text \<open>
  C1, as amended. A time string \<open>M:SS\<close>, two fields of decimal digits with one colon
  between them, is normalised to \<open>00:M:SS\<close>, and the parsing stage computes from it
  the duration \<open>M * 60 + SS\<close> whole seconds in the row where the string stands,
  provided that the duration is below \<open>2 ^ 62\<close> nanoseconds (at most 4611686018
  seconds) and no field has more than 4300 digits. The other rows of the column
  \<open>Time\<close> and the column \<open>Run Date\<close> are taken to parse, and the stage then returns
  the result set with that duration. A longer duration is outside the library's
  range: 153722867:17 makes the parsing stage raise.
\<close>

theorem minutes_seconds_time_string:
  assumes "read_html page_contents = Inr tables"
    and "find_results_table tables = Inr results_df"
    and "getitem results_df ''Run Date'' = Inr run_date"
    and "to_datetime run_date = Inr dates"
    and "getitem results_df ''Time'' = Inr (before @ Some (m @ '':'' @ ss) # after)"
    and "time_seconds_column before = Inr secs_before"
    and "time_seconds_column after = Inr secs_after"
    and "is_digits m" and "length m \<le> max_str_digits"
    and "is_digits ss" and "length ss \<le> max_str_digits"
    and "dec_val m * 60 + dec_val ss \<le> 4611686018"
  shows "str_count (m @ '':'' @ ss) (CHR '':'') = 1
     \<and> normalise_time_string (m @ '':'' @ ss) = ''00:'' @ m @ '':'' @ ss
     \<and> (\<exists>ev. getitem results_df ''Event'' = Inr ev
            \<and> parse_results_page read_html page_contents
                = Inr [(''Event'', map of_parsed ev), (''Run Date'', dates),
                       (''time_seconds'',
                        map Integer
                          (secs_before @ int (dec_val m * 60 + dec_val ss) # secs_after))])"
proof -
  have one: "str_count (m @ '':'' @ ss) (CHR '':'') = 1"
    using assms(8,10) by (intro str_count_one_colon is_digits_no_colon)
  then have norm: "normalise_time_string (m @ '':'' @ ss) = ''00'' @ '':'' @ m @ '':'' @ ss"
    by (simp add: normalise_time_string_def)
  have zero: "is_digits ''00''" "dec_val ''00'' = 0" "length ''00'' \<le> max_str_digits"
    by (simp_all add: is_digits_def is_digit_def dec_val_def digit_val_def max_str_digits_def)
  from assms(12) zero(2)
  have b: "dec_val ''00'' * 3600 + dec_val m * 60 + dec_val ss \<le> 4611686018" by simp
  from time_seconds_column_clock
    [OF zero(1) assms(8) assms(10) zero(3) assms(9) assms(11) b norm assms(6) assms(7)] zero(2)
  have col: "time_seconds_column (before @ Some (m @ '':'' @ ss) # after)
             = Inr (secs_before @ int (dec_val m * 60 + dec_val ss) # secs_after)"
    by simp
  from parse_results_page_returns
    [of read_html page_contents tables results_df run_date dates
      "before @ Some (m @ '':'' @ ss) # after"
      "secs_before @ int (dec_val m * 60 + dec_val ss) # secs_after"]
    assms(1-5) col one norm
  show ?thesis by simp
qed

theorem minutes_seconds_time_string_witness:
  "normalise_time_string ''25:13'' = ''00:25:13''
   \<and> parse_results_page (\<lambda>_. Inr example_page) ''<html>''
       = Inr [(''Event'', [Str ''Riverside parkrun'', Str ''Riverside parkrun'']),
              (''Run Date'', [Timestamp \<lparr>year = 2020, month = 1, day = 4\<rparr>,
                              Timestamp \<lparr>year = 2020, month = 1, day = 11\<rparr>]),
              (''time_seconds'', [Integer 1513, Integer 3900])]"
proof -
  have d: "is_digits ''25''" "is_digits ''13''"
    by (simp_all add: is_digits_def is_digit_def)
  have l: "length ''25'' \<le> max_str_digits" "length ''13'' \<le> max_str_digits"
    by (simp_all add: max_str_digits_def)
  have v: "dec_val ''25'' = 25" "dec_val ''13'' = 13"
    by (simp_all add: dec_val_def digit_val_def)
  have t: "getitem (example_page ! 1) ''Time'' = Inr ([] @ Some (''25'' @ '':'' @ ''13'') # [Some ''1:05:00''])"
    using example_page_columns(2) by simp
  have b: "dec_val ''25'' * 60 + dec_val ''13'' \<le> 4611686018"
    by (simp add: v)
  from minutes_seconds_time_string
    [where read_html = "\<lambda>_. Inr example_page" and page_contents = "''<html>''",
      OF refl example_page_table example_page_columns(1) example_page_dates(1) t
        example_page_seconds(1) example_page_seconds(3) d(1) l(1) d(2) l(2) b]
  obtain ev where n: "normalise_time_string (''25'' @ '':'' @ ''13'') = ''00:'' @ ''25'' @ '':'' @ ''13''"
    and e: "getitem (example_page ! 1) ''Event'' = Inr ev"
    and p: "parse_results_page (\<lambda>_. Inr example_page) ''<html>''
            = Inr [(''Event'', map of_parsed ev),
                   (''Run Date'', [Timestamp \<lparr>year = 2020, month = 1, day = 4\<rparr>,
                                   Timestamp \<lparr>year = 2020, month = 1, day = 11\<rparr>]),
                   (''time_seconds'',
                    map Integer ([] @ int (dec_val ''25'' * 60 + dec_val ''13'') # [3900]))]"
    by blast
  from e have "ev = [Some ''Riverside parkrun'', Some ''Riverside parkrun'']"
    unfolding example_page_columns(3) by simp
  with n p show ?thesis by (simp add: v of_parsed_def)
qed

theorem minutes_seconds_overflow_counterexample:
  "normalise_time_string ''153722867:17'' = ''00:153722867:17''
   \<and> dec_val ''153722867'' * 60 + dec_val ''17'' = 9223372037
   \<and> parse_results_page (\<lambda>_. Inr long_minutes_page) ''<html>'' = Inl OutOfBoundsTimedelta"
  by (simp add: model_defs long_minutes_page_def)

text \<open>
  C2, as amended. A time string \<open>H:MM:SS\<close>, three fields of decimal digits with two
  colons between them, is returned unchanged by the normalisation, and the parsing
  stage computes from it the duration \<open>H * 3600 + MM * 60 + SS\<close> whole seconds in the
  row where the string stands, provided that the duration is below \<open>2 ^ 62\<close>
  nanoseconds (at most 4611686018 seconds) and no field has more than 4300 digits.
  A longer duration is outside the library's range: 2562047:47:17 makes the parsing
  stage raise.
\<close>

theorem hours_minutes_seconds_time_string:
  assumes "read_html page_contents = Inr tables"
    and "find_results_table tables = Inr results_df"
    and "getitem results_df ''Run Date'' = Inr run_date"
    and "to_datetime run_date = Inr dates"
    and "getitem results_df ''Time'' = Inr (before @ Some (h @ '':'' @ mm @ '':'' @ ss) # after)"
    and "time_seconds_column before = Inr secs_before"
    and "time_seconds_column after = Inr secs_after"
    and "is_digits h" and "length h \<le> max_str_digits"
    and "is_digits mm" and "length mm \<le> max_str_digits"
    and "is_digits ss" and "length ss \<le> max_str_digits"
    and "dec_val h * 3600 + dec_val mm * 60 + dec_val ss \<le> 4611686018"
  shows "str_count (h @ '':'' @ mm @ '':'' @ ss) (CHR '':'') = 2
     \<and> normalise_time_string (h @ '':'' @ mm @ '':'' @ ss) = h @ '':'' @ mm @ '':'' @ ss
     \<and> (\<exists>ev. getitem results_df ''Event'' = Inr ev
            \<and> parse_results_page read_html page_contents
                = Inr [(''Event'', map of_parsed ev), (''Run Date'', dates),
                       (''time_seconds'',
                        map Integer
                          (secs_before
                           @ int (dec_val h * 3600 + dec_val mm * 60 + dec_val ss)
                           # secs_after))])"
proof -
  have two: "str_count (h @ '':'' @ mm @ '':'' @ ss) (CHR '':'') = 2"
    using assms(8,10,12) by (intro str_count_two_colons is_digits_no_colon)
  then have norm:
    "normalise_time_string (h @ '':'' @ mm @ '':'' @ ss) = h @ '':'' @ mm @ '':'' @ ss"
    by (simp add: normalise_time_string_def)
  from time_seconds_column_clock
    [OF assms(8) assms(10) assms(12) assms(9) assms(11) assms(13) assms(14) norm
      assms(6) assms(7)]
  have col: "time_seconds_column (before @ Some (h @ '':'' @ mm @ '':'' @ ss) # after)
             = Inr (secs_before @ int (dec_val h * 3600 + dec_val mm * 60 + dec_val ss)
                    # secs_after)" .
  from parse_results_page_returns
    [of read_html page_contents tables results_df run_date dates
      "before @ Some (h @ '':'' @ mm @ '':'' @ ss) # after"
      "secs_before @ int (dec_val h * 3600 + dec_val mm * 60 + dec_val ss) # secs_after"]
    assms(1-5) col two norm
  show ?thesis by simp
qed

theorem hours_minutes_seconds_time_string_witness:
  "normalise_time_string ''1:05:00'' = ''1:05:00''
   \<and> parse_results_page (\<lambda>_. Inr example_page) ''<html>''
       = Inr [(''Event'', [Str ''Riverside parkrun'', Str ''Riverside parkrun'']),
              (''Run Date'', [Timestamp \<lparr>year = 2020, month = 1, day = 4\<rparr>,
                              Timestamp \<lparr>year = 2020, month = 1, day = 11\<rparr>]),
              (''time_seconds'', [Integer 1513, Integer 3900])]"
proof -
  have d: "is_digits ''1''" "is_digits ''05''" "is_digits ''00''"
    by (simp_all add: is_digits_def is_digit_def)
  have l: "length ''1'' \<le> max_str_digits" "length ''05'' \<le> max_str_digits"
    "length ''00'' \<le> max_str_digits"
    by (simp_all add: max_str_digits_def)
  have v: "dec_val ''1'' = 1" "dec_val ''05'' = 5" "dec_val ''00'' = 0"
    by (simp_all add: dec_val_def digit_val_def)
  have t: "getitem (example_page ! 1) ''Time''
           = Inr ([Some ''25:13''] @ Some (''1'' @ '':'' @ ''05'' @ '':'' @ ''00'') # [])"
    using example_page_columns(2) by simp
  have b: "dec_val ''1'' * 3600 + dec_val ''05'' * 60 + dec_val ''00'' \<le> 4611686018"
    by (simp add: v)
  from hours_minutes_seconds_time_string
    [where read_html = "\<lambda>_. Inr example_page" and page_contents = "''<html>''",
      OF refl example_page_table example_page_columns(1) example_page_dates(1) t
        example_page_seconds(2) example_page_seconds(1) d(1) l(1) d(2) l(2) d(3) l(3) b]
  obtain ev where n: "normalise_time_string (''1'' @ '':'' @ ''05'' @ '':'' @ ''00'')
                      = ''1'' @ '':'' @ ''05'' @ '':'' @ ''00''"
    and e: "getitem (example_page ! 1) ''Event'' = Inr ev"
    and p: "parse_results_page (\<lambda>_. Inr example_page) ''<html>''
            = Inr [(''Event'', map of_parsed ev),
                   (''Run Date'', [Timestamp \<lparr>year = 2020, month = 1, day = 4\<rparr>,
                                   Timestamp \<lparr>year = 2020, month = 1, day = 11\<rparr>]),
                   (''time_seconds'',
                    map Integer
                      ([1513] @ int (dec_val ''1'' * 3600 + dec_val ''05'' * 60 + dec_val ''00'')
                       # []))]"
    by blast
  from e have "ev = [Some ''Riverside parkrun'', Some ''Riverside parkrun'']"
    unfolding example_page_columns(3) by simp
  with n p show ?thesis by (simp add: v of_parsed_def)
qed

theorem hours_minutes_seconds_overflow_counterexample:
  "normalise_time_string ''2562047:47:17'' = ''2562047:47:17''
   \<and> dec_val ''2562047'' * 3600 + dec_val ''47'' * 60 + dec_val ''17'' = 9223372037
   \<and> parse_results_page (\<lambda>_. Inr long_hours_page) ''<html>'' = Inl OutOfBoundsTimedelta"
  by (simp add: model_defs long_hours_page_def)

text \<open>
  C9. A time string whose number of colons is neither one nor two (none, or more than
  two) is returned unchanged by \<open>_normalise_time_string\<close>: the function has no error
  of its own, its result is a plain string for every input.
\<close>

theorem normalise_other_colon_counts_unchanged:
  assumes "str_count time_str (CHR '':'') \<noteq> 1"
    and "str_count time_str (CHR '':'') \<noteq> 2"
  shows "normalise_time_string time_str = time_str"
  using assms(1) by (simp add: normalise_time_string_def)

theorem normalise_other_colon_counts_unchanged_witness:
  "normalise_time_string ''1513'' = ''1513''
   \<and> normalise_time_string ''1:02:03:04'' = ''1:02:03:04''"
proof -
  have a: "str_count ''1513'' (CHR '':'') \<noteq> 1" "str_count ''1513'' (CHR '':'') \<noteq> 2"
    by (simp_all add: str_count_def)
  have b: "str_count ''1:02:03:04'' (CHR '':'') \<noteq> 1"
    "str_count ''1:02:03:04'' (CHR '':'') \<noteq> 2"
    by (simp_all add: str_count_def)
  show ?thesis
    using normalise_other_colon_counts_unchanged [OF a]
      normalise_other_colon_counts_unchanged [OF b] by simp
qed

section \<open>The results table\<close>



text \<open>
  C4. When no parsed table has all of the columns \<open>Event\<close>, \<open>Run Date\<close> and
  \<open>Time\<close>, \<open>_parse_results_page\<close> raises the error
  \<open>Could not find results table\<close> and returns no result set; so it does for a page
  whose only table has the columns \<open>Event\<close>, \<open>Date\<close> and \<open>Time\<close>.
\<close>

theorem no_table_with_result_columns_raises:
  assumes "read_html page_contents = Inr tables"
    and "\<forall>df \<in> set tables. \<not> has_result_columns df"
  shows "parse_results_page read_html page_contents
         = Inl (RuntimeError ''Could not find results table'')"
  using assms by (simp add: parse_results_page_def find_results_table_none)

theorem no_table_with_result_columns_raises_witness:
  "parse_results_page
     (\<lambda>_. Inr [[(''Event'', [Some ''Riverside parkrun'']), (''Date'', [Some ''04/01/2020'']),
                 (''Time'', [Some ''25:13''])]]) ''<html>''
   = Inl (RuntimeError ''Could not find results table'')"
proof -
  let ?tables = "[[(''Event'', [Some ''Riverside parkrun'']), (''Date'', [Some ''04/01/2020'']),
                   (''Time'', [Some ''25:13''])]]"
  have "\<forall>df \<in> set ?tables. \<not> has_result_columns df"
    by (simp add: has_result_columns_def columns_def)
  from no_table_with_result_columns_raises [of "\<lambda>_. Inr ?tables" "''<html>''", OF refl this]
  show ?thesis .
qed

text \<open>
  C7. The result set of \<open>_parse_results_page\<close> has exactly the three columns
  \<open>Event\<close>, \<open>Run Date\<close>, \<open>time_seconds\<close>, in this order, and row \<open>i\<close> of it is
  made of row \<open>i\<close> of the selected table: its event, its date parsed, and the whole
  seconds of its time, normalised and parsed.
\<close>

theorem result_set_three_columns_in_row_order:
  assumes "read_html page_contents = Inr tables"
    and "parse_results_page read_html page_contents = Inr out"
  shows "\<exists>results_df ev run_date time_col dates time_strs durations.
           find_results_table tables = Inr results_df
         \<and> getitem results_df ''Event'' = Inr ev
         \<and> getitem results_df ''Run Date'' = Inr run_date
         \<and> getitem results_df ''Time'' = Inr time_col
         \<and> map to_datetime_value run_date = map Inr dates
         \<and> time_col = map Some time_strs
         \<and> map (\<lambda>s. timedelta_ns (normalise_time_string s)) time_strs
             = map (\<lambda>ns. Inr (Some ns)) durations
         \<and> out = [(''Event'', map of_parsed ev), (''Run Date'', dates),
                   (''time_seconds'', map (\<lambda>ns. Integer (int (total_seconds_int ns))) durations)]"
proof -
  from parse_results_page_Inr [OF assms]
  obtain results_df ev run_date time_col dates seconds
    where f: "find_results_table tables = Inr results_df"
      and e: "getitem results_df ''Event'' = Inr ev"
      and r: "getitem results_df ''Run Date'' = Inr run_date"
      and t: "getitem results_df ''Time'' = Inr time_col"
      and d: "to_datetime run_date = Inr dates"
      and s: "time_seconds_column time_col = Inr seconds"
      and o: "out = [(''Event'', map of_parsed ev), (''Run Date'', dates),
                     (''time_seconds'', map Integer seconds)]"
    by blast
  from d have d': "map to_datetime_value run_date = map Inr dates"
    unfolding to_datetime_def by (rule traverse_Inr_map)
  from time_seconds_column_Inr [OF s] obtain time_strs durations
    where c: "time_col = map Some time_strs"
      and p: "map (\<lambda>s. timedelta_ns (normalise_time_string s)) time_strs
              = map (\<lambda>ns. Inr (Some ns)) durations"
      and q: "seconds = map (\<lambda>ns. int (total_seconds_int ns)) durations"
    by blast
  from o q have "out = [(''Event'', map of_parsed ev), (''Run Date'', dates),
                   (''time_seconds'', map (\<lambda>ns. Integer (int (total_seconds_int ns))) durations)]"
    by (simp add: comp_def)
  with f e r t d' c p show ?thesis by blast
qed

theorem result_set_three_columns_in_row_order_witness:
  "parse_results_page (\<lambda>_. Inr example_page) '''' = Inr example_result
   \<and> (\<exists>results_df ev run_date time_col dates time_strs durations.
         find_results_table example_page = Inr results_df
       \<and> getitem results_df ''Event'' = Inr ev
       \<and> getitem results_df ''Run Date'' = Inr run_date
       \<and> getitem results_df ''Time'' = Inr time_col
       \<and> map to_datetime_value run_date = map Inr dates
       \<and> time_col = map Some time_strs
       \<and> map (\<lambda>s. timedelta_ns (normalise_time_string s)) time_strs
           = map (\<lambda>ns. Inr (Some ns)) durations
       \<and> example_result
           = [(''Event'', map of_parsed ev), (''Run Date'', dates),
              (''time_seconds'', map (\<lambda>ns. Integer (int (total_seconds_int ns))) durations)])"
  using parse_example_page result_set_three_columns_in_row_order
    [of "\<lambda>_. Inr example_page" "''''" example_page example_result, OF refl parse_example_page]
  by (rule conjI)

section \<open>Status codes\<close>

text \<open>
  C5, as amended. For every response that \<open>session.get\<close> returns: status 200 goes
  on to parsing and to the graph; status 202 raises the error
  \<open>Load page manually and try again\<close>; a status from 400 to 599 ends in the
  \<open>HTTPError\<close> that \<open>raise_for_status\<close> raises in the fetcher, which carries the
  status code; every other status raises the generic error
  \<open>Failed to load page, error code: \<close> followed by the status code.
\<close>

theorem status_code_outcomes:
  assumes "session_get (results_request athlete_id) = Inr r"
  shows "analyse_results session_get read_html athlete_id =
     (if status_code r = 200 then
        (case parse_results_page read_html (response_text r) of
           Inl e \<Rightarrow> Inl e
         | Inr data_frame \<Rightarrow> generate_graph data_frame)
      else if status_code r = 202 then Inl (RuntimeError ''Load page manually and try again'')
      else if 400 \<le> status_code r \<and> status_code r < 600 then Inl (HTTPError (status_code r))
      else Inl (RuntimeError (''Failed to load page, error code: '' @ str_int (status_code r))))"
  using request_results_page_response [of session_get athlete_id r] assms
  by (simp add: analyse_results_def)

theorem status_code_outcomes_witness:
  "analyse_results (\<lambda>_. Inr \<lparr>status_code = 200, response_text = ''<html>''\<rparr>)
       (\<lambda>_. Inr example_page) ''1''
       = Inr (''results.html'',
              \<lparr>fig_x = [Timestamp \<lparr>year = 2020, month = 1, day = 4\<rparr>,
                        Timestamp \<lparr>year = 2020, month = 1, day = 11\<rparr>],
               fig_y = [Integer 1513, Integer 3900],
               fig_title = ''Parkrun results'', xaxis_title = ''Date'',
               yaxis_title = ''Time (minute:seconds)'',
               tickvals = Some [Integer 1513, Integer 3900],
               ticktext = Some [''25:13'', ''65:00'']\<rparr>)
   \<and> analyse_results (\<lambda>_. Inr \<lparr>status_code = 202, response_text = ''''\<rparr>)
       (\<lambda>_. Inr example_page) ''1'' = Inl (RuntimeError ''Load page manually and try again'')
   \<and> analyse_results (\<lambda>_. Inr \<lparr>status_code = 404, response_text = ''''\<rparr>)
       (\<lambda>_. Inr example_page) ''1'' = Inl (HTTPError 404)
   \<and> analyse_results (\<lambda>_. Inr \<lparr>status_code = 301, response_text = ''''\<rparr>)
       (\<lambda>_. Inr example_page) ''1''
       = Inl (RuntimeError ''Failed to load page, error code: 301'')"
proof -
  have p: "parse_results_page (\<lambda>_. Inr example_page) ''<html>'' = Inr example_result"
    using parse_example_page by (simp add: parse_results_page_def)
  show ?thesis
    using
      status_code_outcomes [of "\<lambda>_. Inr \<lparr>status_code = 200, response_text = ''<html>''\<rparr>"
        "''1''" _ "\<lambda>_. Inr example_page", OF refl]
      status_code_outcomes [of "\<lambda>_. Inr \<lparr>status_code = 202, response_text = ''''\<rparr>"
        "''1''" _ "\<lambda>_. Inr example_page", OF refl]
      status_code_outcomes [of "\<lambda>_. Inr \<lparr>status_code = 404, response_text = ''''\<rparr>"
        "''1''" _ "\<lambda>_. Inr example_page", OF refl]
      status_code_outcomes [of "\<lambda>_. Inr \<lparr>status_code = 301, response_text = ''''\<rparr>"
        "''1''" _ "\<lambda>_. Inr example_page", OF refl]
    by (simp add: p str_int_301 generate_graph_example)
qed

theorem generic_error_for_status_404_counterexample:
  "analyse_results (\<lambda>_. Inr \<lparr>status_code = 404, response_text = ''''\<rparr>)
       (\<lambda>_. Inr example_page) ''1'' = Inl (HTTPError 404)
   \<and> analyse_results (\<lambda>_. Inr \<lparr>status_code = 404, response_text = ''''\<rparr>)
       (\<lambda>_. Inr example_page) ''1''
       \<noteq> Inl (RuntimeError ''Failed to load page, error code: 404'')"
  by (simp add: analyse_results_def request_results_page_def raise_for_status_def)

text \<open>
  C10, as amended. For every response whose status is from 400 to 599 the fetcher
  itself raises, through \<open>raise_for_status\<close>, and so does \<open>analyse_results\<close>; a
  response that the fetcher returns to its caller has a status below 400 or of at
  least 600, so the caller's generic branch runs only for such a status, other than
  200 and 202, and it does run for each of them.
\<close>

theorem fetcher_raises_for_error_statuses:
  assumes "session_get (results_request athlete_id) = Inr r"
  shows "(400 \<le> status_code r \<and> status_code r < 600 \<longrightarrow>
            request_results_page session_get athlete_id = Inl (HTTPError (status_code r))
          \<and> analyse_results session_get read_html athlete_id = Inl (HTTPError (status_code r)))
       \<and> (\<forall>r'. request_results_page session_get athlete_id = Inr r' \<longrightarrow>
            r' = r \<and> (status_code r < 400 \<or> 600 \<le> status_code r))
       \<and> (status_code r \<noteq> 200 \<and> status_code r \<noteq> 202
            \<and> (status_code r < 400 \<or> 600 \<le> status_code r) \<longrightarrow>
            analyse_results session_get read_html athlete_id
            = Inl (RuntimeError (''Failed to load page, error code: '' @ str_int (status_code r))))"
  using request_results_page_response [of session_get athlete_id r] assms
  by (auto simp: analyse_results_def)

theorem fetcher_raises_for_error_statuses_witness:
  "request_results_page (\<lambda>_. Inr \<lparr>status_code = 404, response_text = ''''\<rparr>) ''1''
     = Inl (HTTPError 404)
   \<and> request_results_page (\<lambda>_. Inr \<lparr>status_code = 500, response_text = ''''\<rparr>) ''1''
     = Inl (HTTPError 500)
   \<and> analyse_results (\<lambda>_. Inr \<lparr>status_code = 301, response_text = ''''\<rparr>)
       (\<lambda>_. Inr example_page) ''1''
       = Inl (RuntimeError ''Failed to load page, error code: 301'')"
  using
    fetcher_raises_for_error_statuses [of "\<lambda>_. Inr \<lparr>status_code = 404, response_text = ''''\<rparr>"
      "''1''" _ "\<lambda>_. Inr example_page", OF refl]
    fetcher_raises_for_error_statuses [of "\<lambda>_. Inr \<lparr>status_code = 500, response_text = ''''\<rparr>"
      "''1''" _ "\<lambda>_. Inr example_page", OF refl]
    fetcher_raises_for_error_statuses [of "\<lambda>_. Inr \<lparr>status_code = 301, response_text = ''''\<rparr>"
      "''1''" _ "\<lambda>_. Inr example_page", OF refl]
  by (simp add: str_int_301)

theorem fetcher_returns_status_600_counterexample:
  "request_results_page (\<lambda>_. Inr \<lparr>status_code = 600, response_text = ''''\<rparr>) ''1''
     = Inr \<lparr>status_code = 600, response_text = ''''\<rparr>
   \<and> analyse_results (\<lambda>_. Inr \<lparr>status_code = 600, response_text = ''''\<rparr>)
       (\<lambda>_. Inr example_page) ''1''
       = Inl (RuntimeError ''Failed to load page, error code: 600'')"
  by (simp add: analyse_results_def request_results_page_def raise_for_status_def str_int_600)

section \<open>Dates\<close>




section \<open>The graph\<close>

text \<open>
  C8. For a result set whose column \<open>time_seconds\<close> holds the non-negative
  durations \<open>secs\<close>, the tick values of the Y axis are these durations, and the
  text of the tick of a duration \<open>v\<close> is minutes, a colon, seconds: the minutes
  \<open>v div 60\<close> in decimal, with a leading zero below ten minutes and with as many
  digits as they need from a hundred minutes on (they are not turned into hours); the
  seconds \<open>v mod 60\<close> as exactly two digits. So 1513 is labelled \<open>25:13\<close> and 3900
  is labelled \<open>65:00\<close>.
\<close>

theorem tick_values_and_labels:
  assumes "getitem data_frame ''Run Date'' = Inr run_date"
    and "getitem data_frame ''time_seconds'' = Inr (map Integer secs)"
    and "\<forall>v \<in> set secs. 0 \<le> v"
  shows "\<exists>fig. generate_graph data_frame = Inr (''results.html'', fig)
           \<and> tickvals fig = Some (map Integer secs)
           \<and> ticktext fig = Some (map
                (\<lambda>v. (if v < 600 then [CHR ''0'', digit_char (nat (v div 60))]
                      else if v < 6000 then [digit_char (nat (v div 60) div 10),
                                             digit_char (nat (v div 60) mod 10)]
                      else str_nat (nat (v div 60)))
                     @ [CHR '':'', digit_char (nat (v mod 60) div 10),
                        digit_char (nat (v mod 60) mod 10)]) secs)"
proof -
  let ?label = "\<lambda>v. (if v < 600 then [CHR ''0'', digit_char (nat (v div 60))]
                      else if v < 6000 then [digit_char (nat (v div 60) div 10),
                                             digit_char (nat (v div 60) mod 10)]
                      else str_nat (nat (v div 60)))
                     @ [CHR '':'', digit_char (nat (v mod 60) div 10),
                        digit_char (nat (v mod 60) mod 10)]"
  have "map tick_text (map Integer secs) = map Inr (map ?label secs)"
    using assms(3) by (simp add: tick_text_nonneg)
  then have t: "traverse tick_text (map Integer secs) = Inr (map ?label secs)"
    by (rule map_traverse)
  show ?thesis
    by (simp add: generate_graph_def px_line_def assms(1,2) t)
qed

theorem tick_values_and_labels_witness:
  "\<exists>fig. generate_graph example_result = Inr (''results.html'', fig)
      \<and> tickvals fig = Some [Integer 1513, Integer 3900]
      \<and> ticktext fig = Some [''25:13'', ''65:00'']"
proof -
  have r: "getitem example_result ''Run Date''
           = Inr [Timestamp \<lparr>year = 2020, month = 1, day = 4\<rparr>,
                  Timestamp \<lparr>year = 2020, month = 1, day = 11\<rparr>]"
    by (simp add: example_result_def getitem_def)
  have s: "getitem example_result ''time_seconds'' = Inr (map Integer [1513, 3900])"
    by (simp add: example_result_def getitem_def)
  have n: "\<forall>v \<in> set [1513, 3900 :: int]. 0 \<le> v" by simp
  from tick_values_and_labels [OF r s n] show ?thesis
    by (simp add: digit_char_def)
qed

end
